theory Spec2Isabelle
  imports Complex_Main "HOL-Library.Product_Lexorder"
begin

section \<open>Loading PREDICTS sites and matching them to Major TOM patches\<close>

text \<open>
  A shallow embedding of \<^verbatim>\<open>scripts/match_predicts_major_tom_fixed.py\<close>.
  A float64 value is the real number it stands for. The sums and differences the code
  computes on such values are rounded as IEEE 754 rounds them; the distances numpy
  computes are taken as given. Timestamps are integer counts of nanoseconds, with
  \<open>None\<close> for pandas' NaT.
\<close>

subsection \<open>haversine\_distance\<close>

text \<open>\<^verbatim>\<open>np.radians\<close>: degrees to radians.\<close>

definition radians :: "real \<Rightarrow> real" where
  "radians x = x * pi / 180"

text \<open>
  Lines 19 to 29 over exact real arithmetic: every operation is that of the real numbers.
\<close>

definition haversine_distance :: "real \<Rightarrow> real \<Rightarrow> real \<Rightarrow> real \<Rightarrow> real" where
  "haversine_distance lat1 lon1 lat2 lon2 =
     (let R = 6371;
          lat1_rad = radians lat1;
          lat2_rad = radians lat2;
          dlat = radians (lat2 - lat1);
          dlon = radians (lon2 - lon1);
          a = (sin (dlat / 2))\<^sup>2 + cos lat1_rad * cos lat2_rad * (sin (dlon / 2))\<^sup>2;
          c = 2 * arcsin (sqrt a)
      in R * c)"

text \<open>
  The formula as the specification words it, for comparison with the code: twice the
  radius times the arcsine of the root of the haversine term, on coordinates converted
  from degrees to radians, with radius 6371 km.
\<close>

definition haversine_term :: "real \<Rightarrow> real \<Rightarrow> real \<Rightarrow> real \<Rightarrow> real" where
  "haversine_term lat1 lon1 lat2 lon2 =
     (sin ((lat2 - lat1) * pi / 180 / 2))\<^sup>2
       + cos (lat1 * pi / 180) * cos (lat2 * pi / 180) * (sin ((lon2 - lon1) * pi / 180 / 2))\<^sup>2"

definition great_circle_spec :: "real \<Rightarrow> real \<Rightarrow> real \<Rightarrow> real \<Rightarrow> real" where
  "great_circle_spec lat1 lon1 lat2 lon2 =
     2 * 6371 * arcsin (sqrt (haversine_term lat1 lon1 lat2 lon2))"

subsection \<open>float64 arithmetic\<close>

text \<open>
  Rounding to the nearest float64, ties to the even significand: a number of binary
  exponent \<open>e\<close> is rounded on the grid of step \<open>2 powi (e - 52)\<close>, and the exponent
  is at least -1022 (below it the numbers are subnormal). Overflow is left out: the
  numbers rounded here are degrees.
\<close>

definition round_half_even :: "real \<Rightarrow> int" where
  "round_half_even q =
     (let f = \<lfloor>q\<rfloor>
      in if q - of_int f < 1 / 2 then f
         else if q - of_int f > 1 / 2 then f + 1
         else if even f then f else f + 1)"

definition float64_exponent :: "real \<Rightarrow> int" where
  "float64_exponent x = max \<lfloor>log 2 \<bar>x\<bar>\<rfloor> (- 1022)"

definition round_float64 :: "real \<Rightarrow> real" where
  "round_float64 x =
     (if x = 0 then 0
      else let e = float64_exponent x - 52
           in of_int (round_half_even (x / 2 powi e)) * 2 powi e)"

text \<open>Half the step of the grid a number is rounded on: the most the rounding moves it.\<close>

definition half_ulp :: "real \<Rightarrow> real" where
  "half_ulp x = 2 powi (float64_exponent x - 53)"

text \<open>\<^verbatim>\<open>a + b\<close> and \<^verbatim>\<open>a - b\<close> on float64 values: the exact result, rounded.\<close>

definition float64_add :: "real \<Rightarrow> real \<Rightarrow> real" where
  "float64_add a b = round_float64 (a + b)"

definition float64_sub :: "real \<Rightarrow> real \<Rightarrow> real" where
  "float64_sub a b = round_float64 (a - b)"

subsection \<open>The tables\<close>

text \<open>
  The exceptions the routines can raise: \<^verbatim>\<open>int(nan)\<close> and \<^verbatim>\<open>pd.concat([])\<close>
  raise a ValueError, \<^verbatim>\<open>iloc[0]\<close> on an empty frame an IndexError.
\<close>

datatype error = ValueError | IndexError

text \<open>
  A cell of a numeric column that is not a coordinate: an integer in an int64 column, a
  float or NaN in a float64 column. \<^verbatim>\<open>read_csv\<close> makes \<open>Site_number\<close> an int64
  column when every cell of the file holds an integer and a float64 column when a cell is
  empty.
\<close>

datatype number_cell = IntCell int | FloatCell real | NaNCell

text \<open>
  A row of a PREDICTS file as \<^verbatim>\<open>read_csv\<close> returns it with the eight columns of
  \<^verbatim>\<open>usecols\<close>; an empty cell of a string or coordinate column is \<open>None\<close> (NaN).
\<close>

record csv_row =
  Site_number :: number_cell
  Source_ID :: "string option"
  Latitude :: "real option"
  Longitude :: "real option"
  Predominant_land_use :: "string option"
  Sample_midpoint :: "string option"
  Country :: "string option"
  Use_intensity :: "string option"

text \<open>The row after \<^verbatim>\<open>df["source_file"] = path.name\<close>.\<close>

record frame_row = csv_row +
  source_file :: string

text \<open>
  A row of the sites table as \<^verbatim>\<open>load_predicts_sites\<close> returns it: the rows with a
  missing coordinate, land use or sampling date have been dropped, so these columns hold
  values; \<open>Sample_midpoint\<close> is a timestamp in nanoseconds.
\<close>

record site =
  Site_number :: number_cell
  Source_ID :: "string option"
  Latitude :: real
  Longitude :: real
  Predominant_land_use :: string
  Sample_midpoint :: int
  Country :: "string option"
  Use_intensity :: "string option"
  source_file :: string
  site_uid :: string

text \<open>
  A row of the metadata table after line 61: the eight columns read from the parquet file
  and \<open>timestamp_dt\<close>, the timestamp parsed with \<^verbatim>\<open>errors="coerce"\<close>, which is
  \<open>None\<close> (NaT) where the string does not parse.
\<close>

record patch =
  grid_cell :: string
  product_id :: string
  timestamp :: string
  cloud_cover :: real
  centre_lat :: real
  centre_lon :: real
  parquet_url :: string
  parquet_row :: int
  timestamp_dt :: "int option"

subsection \<open>The columns computed for the candidates of a site\<close>

text \<open>
  \<open>distance_km\<close> and \<open>lag_days\<close> are columns added to the candidate frame; each
  entry depends on its own row and on the site only, so they are functions of the row.

  The \<open>distance_km\<close> column holds what \<^verbatim>\<open>haversine_distance\<close> returns on float64
  arrays, that is lines 21 to 29 with numpy's \<^verbatim>\<open>radians\<close>, \<^verbatim>\<open>sin\<close>, \<^verbatim>\<open>cos\<close>,
  \<^verbatim>\<open>sqrt\<close> and \<^verbatim>\<open>arcsin\<close> and a rounding after each operation. These are not part of
  the script: \<open>haversine_f64\<close> stands for that computation, and nothing is assumed of
  it.
\<close>

type_synonym distance_function = "real \<Rightarrow> real \<Rightarrow> real \<Rightarrow> real \<Rightarrow> real"

definition candidate_distance_km :: "distance_function \<Rightarrow> site \<Rightarrow> patch \<Rightarrow> real" where
  "candidate_distance_km haversine_f64 site_row p =
     haversine_f64 (Latitude site_row) (Longitude site_row) (centre_lat p) (centre_lon p)"

definition ns_per_day :: int where
  "ns_per_day = 86400000000000"

text \<open>
  \<^verbatim>\<open>(timestamp_dt - Sample_midpoint).abs().dt.days\<close>: the whole days of the absolute
  difference; NaN where the timestamp is NaT.
\<close>

definition candidate_lag_days :: "site \<Rightarrow> patch \<Rightarrow> int option" where
  "candidate_lag_days site_row p =
     (case timestamp_dt p of
        None \<Rightarrow> None
      | Some t \<Rightarrow> Some (\<bar>t - Sample_midpoint site_row\<bar> div ns_per_day))"

subsection \<open>Selecting the candidates\<close>

text \<open>
  The mask of lines 76 to 81: the four bounds are float64 sums and differences, and the
  comparisons of float64 values are exact.
\<close>

definition in_bounding_box :: "site \<Rightarrow> real \<Rightarrow> patch \<Rightarrow> bool" where
  "in_bounding_box site_row search_radius_deg p \<longleftrightarrow>
     centre_lat p \<ge> float64_sub (Latitude site_row) search_radius_deg \<and>
     centre_lat p \<le> float64_add (Latitude site_row) search_radius_deg \<and>
     centre_lon p \<ge> float64_sub (Longitude site_row) search_radius_deg \<and>
     centre_lon p \<le> float64_add (Longitude site_row) search_radius_deg"

text \<open>
  \<^verbatim>\<open>DataFrame.nsmallest(n, column)\<close> with the default \<^verbatim>\<open>keep="first"\<close>: the
  first \<open>n\<close> rows of the frame sorted by the column, rows with equal values staying in
  their order; no row when \<open>n \<le> 0\<close>.
\<close>

definition nsmallest :: "int \<Rightarrow> ('a \<Rightarrow> real) \<Rightarrow> 'a list \<Rightarrow> 'a list" where
  "nsmallest n column rows = take (nat n) (sort_key column rows)"

text \<open>
  \<^verbatim>\<open>sort_values(["distance_km", "lag_days", "cloud_cover"])\<close>: ascending and
  lexicographic in the three columns, a NaN lag after every number, rows with equal keys
  staying in their order. The key of a lag is a pair whose first component says whether
  it is NaN.
\<close>

definition lag_sort_key :: "int option \<Rightarrow> bool \<times> int" where
  "lag_sort_key l = (case l of None \<Rightarrow> (True, 0) | Some d \<Rightarrow> (False, d))"

definition sort_values_key :: "distance_function \<Rightarrow> site \<Rightarrow> patch \<Rightarrow> real \<times> (bool \<times> int) \<times> real" where
  "sort_values_key haversine_f64 site_row p =
     (candidate_distance_km haversine_f64 site_row p, lag_sort_key (candidate_lag_days site_row p), cloud_cover p)"

definition sort_values :: "distance_function \<Rightarrow> site \<Rightarrow> patch list \<Rightarrow> patch list" where
  "sort_values haversine_f64 site_row rows = sort_key (sort_values_key haversine_f64 site_row) rows"

text \<open>
  The candidate frame of a site at line 130: the rows of the bounding box, those of them
  under the cloud threshold, the \<open>max_candidates\<close> nearest of these, sorted.
\<close>

definition ranked_candidates :: "distance_function \<Rightarrow> real \<Rightarrow> int \<Rightarrow> real \<Rightarrow> patch list \<Rightarrow> site \<Rightarrow> patch list" where
  "ranked_candidates haversine_f64 search_radius_deg max_candidates max_cloud_cover meta site_row =
     (let candidates = filter (in_bounding_box site_row search_radius_deg) meta;
          candidates = filter (\<lambda>p. cloud_cover p \<le> max_cloud_cover) candidates;
          candidates = nsmallest max_candidates (candidate_distance_km haversine_f64 site_row) candidates
      in sort_values haversine_f64 site_row candidates)"

text \<open>The row \<open>best\<close> of line 133, when the candidate frame has a first row.\<close>

definition best_candidate :: "distance_function \<Rightarrow> real \<Rightarrow> int \<Rightarrow> real \<Rightarrow> patch list \<Rightarrow> site \<Rightarrow> patch option" where
  "best_candidate haversine_f64 search_radius_deg max_candidates max_cloud_cover meta site_row =
     (case ranked_candidates haversine_f64 search_radius_deg max_candidates max_cloud_cover meta site_row of
        [] \<Rightarrow> None
      | best # _ \<Rightarrow> Some best)"

subsection \<open>The output rows\<close>

text \<open>
  An output row is the site's row (\<^verbatim>\<open>**site_row.to_dict()\<close>) extended with the eight
  match fields, each of which can be \<^verbatim>\<open>None\<close>.
\<close>

record match_row = site +
  product_id :: "string option"
  eo_timestamp :: "int option"
  lag_days :: "int option"
  cloud_cover :: "real option"
  distance_km :: "real option"
  parquet_url :: "string option"
  parquet_row :: "int option"
  grid_cell :: "string option"

definition no_match :: "site \<Rightarrow> match_row" where
  "no_match site_row =
     site.extend site_row (match_row.fields None None None None None None None None)"

text \<open>
  The row appended for the best candidate. \<^verbatim>\<open>int(best["lag_days"])\<close> raises a
  ValueError when the lag is NaN, which aborts the run.
\<close>

definition matched :: "distance_function \<Rightarrow> site \<Rightarrow> patch \<Rightarrow> error + match_row" where
  "matched haversine_f64 site_row best =
     (case candidate_lag_days site_row best of
        None \<Rightarrow> Inl ValueError
      | Some l \<Rightarrow>
          Inr (site.extend site_row
                (match_row.fields
                   (Some (patch.product_id best))
                   (timestamp_dt best)
                   (Some l)
                   (Some (patch.cloud_cover best))
                   (Some (candidate_distance_km haversine_f64 site_row best))
                   (Some (patch.parquet_url best))
                   (Some (patch.parquet_row best))
                   (Some (patch.grid_cell best)))))"

subsection \<open>match\_nearest\_patches\<close>

text \<open>The body of the loop, for one site (lines 72 to 145).\<close>

definition match_site :: "distance_function \<Rightarrow> real \<Rightarrow> int \<Rightarrow> real \<Rightarrow> patch list \<Rightarrow> site \<Rightarrow> error + match_row" where
  "match_site haversine_f64 search_radius_deg max_candidates max_cloud_cover meta site_row =
     (let candidates = filter (in_bounding_box site_row search_radius_deg) meta
      in if length candidates = 0 then Inr (no_match site_row)
         else
           let candidates = filter (\<lambda>p. patch.cloud_cover p \<le> max_cloud_cover) candidates
           in if length candidates = 0 then Inr (no_match site_row)
              else
                let candidates = nsmallest max_candidates (candidate_distance_km haversine_f64 site_row) candidates;
                    candidates = sort_values haversine_f64 site_row candidates
                in (case candidates of
                      [] \<Rightarrow> Inl IndexError
                    | best # _ \<Rightarrow> matched haversine_f64 site_row best))"

text \<open>
  The loop over the sites: the rows are appended in order, an exception ends the run. The
  returned frame \<^verbatim>\<open>pd.DataFrame(matches)\<close> is the list of the appended rows.
\<close>

fun match_loop :: "distance_function \<Rightarrow> real \<Rightarrow> int \<Rightarrow> real \<Rightarrow> patch list \<Rightarrow> site list \<Rightarrow> error + match_row list" where
  "match_loop haversine_f64 search_radius_deg max_candidates max_cloud_cover meta [] = Inr []"
| "match_loop haversine_f64 search_radius_deg max_candidates max_cloud_cover meta (site_row # rest) =
     (case match_site haversine_f64 search_radius_deg max_candidates max_cloud_cover meta site_row of
        Inl e \<Rightarrow> Inl e
      | Inr m \<Rightarrow>
          (case match_loop haversine_f64 search_radius_deg max_candidates max_cloud_cover meta rest of
             Inl e \<Rightarrow> Inl e
           | Inr matches \<Rightarrow> Inr (m # matches)))"

definition match_nearest_patches ::
  "distance_function \<Rightarrow> site list \<Rightarrow> patch list \<Rightarrow> real \<Rightarrow> int \<Rightarrow> real \<Rightarrow> error + match_row list" where
  "match_nearest_patches haversine_f64 sites meta search_radius_deg max_candidates max_cloud_cover =
     match_loop haversine_f64 search_radius_deg max_candidates max_cloud_cover meta sites"

text \<open>
  The call in \<^verbatim>\<open>main\<close>: \<^verbatim>\<open>search_radius_deg=1.0, max_cloud_cover=50\<close> and the default
  \<^verbatim>\<open>max_candidates=1000\<close>.
\<close>

definition main_matches :: "distance_function \<Rightarrow> site list \<Rightarrow> patch list \<Rightarrow> error + match_row list" where
  "main_matches haversine_f64 sites meta = match_nearest_patches haversine_f64 sites meta 1 1000 50"

subsection \<open>load\_predicts\_sites\<close>

definition AG_LAND_USES :: "string set" where
  "AG_LAND_USES = {''Cropland'', ''Pasture'', ''Plantation forest''}"

text \<open>
  \<^verbatim>\<open>astype(str)\<close>. On an int64 column it is Python's \<^verbatim>\<open>str\<close> on an integer, the
  decimal digits with a minus sign for a negative number. On a float64 column it is the
  \<^verbatim>\<open>repr\<close> of the float, which is not part of the script: \<open>float_str\<close> stands for
  it; NaN gives \<^verbatim>\<open>nan\<close>. On a string column it leaves the strings and gives
  \<^verbatim>\<open>nan\<close> for an empty cell.
\<close>

definition digit_char :: "nat \<Rightarrow> char" where
  "digit_char d = char_of (48 + d)"

fun str_nat :: "nat \<Rightarrow> string" where
  "str_nat n = (if n < 10 then [digit_char n] else str_nat (n div 10) @ [digit_char (n mod 10)])"

definition str_int :: "int \<Rightarrow> string" where
  "str_int i = (if i < 0 then CHR ''-'' # str_nat (nat (- i)) else str_nat (nat i))"

definition astype_str_number :: "(real \<Rightarrow> string) \<Rightarrow> number_cell \<Rightarrow> string" where
  "astype_str_number float_str c =
     (case c of IntCell i \<Rightarrow> str_int i | FloatCell x \<Rightarrow> float_str x | NaNCell \<Rightarrow> ''nan'')"

definition astype_str_object :: "string option \<Rightarrow> string" where
  "astype_str_object c = (case c of None \<Rightarrow> ''nan'' | Some v \<Rightarrow> v)"

text \<open>
  An input file is the name of its path and the rows \<^verbatim>\<open>read_csv\<close> returns for it.
\<close>

definition read_frame :: "string \<times> csv_row list \<Rightarrow> frame_row list" where
  "read_frame path =
     (case path of (name, df) \<Rightarrow> map (\<lambda>row. csv_row.extend row (frame_row.fields name)) df)"

text \<open>
  \<^verbatim>\<open>pd.concat(frames, ignore_index=True)\<close>: the rows of the frames in order. The
  \<open>Site_number\<close> column of the result is an int64 column when all its cells are
  integers; otherwise it is a float64 column and its integers have become floats.
\<close>

definition is_int_cell :: "number_cell \<Rightarrow> bool" where
  "is_int_cell c = (case c of IntCell _ \<Rightarrow> True | _ \<Rightarrow> False)"

definition to_float_cell :: "number_cell \<Rightarrow> number_cell" where
  "to_float_cell c = (case c of IntCell i \<Rightarrow> FloatCell (of_int i) | _ \<Rightarrow> c)"

definition pd_concat :: "frame_row list list \<Rightarrow> frame_row list" where
  "pd_concat frames =
     (let rows = concat frames
      in if list_all (\<lambda>r. is_int_cell (csv_row.Site_number r)) rows then rows
         else map (\<lambda>r. r\<lparr>csv_row.Site_number := to_float_cell (csv_row.Site_number r)\<rparr>) rows)"

text \<open>
  Line 48 and the return: the row with its \<open>site_uid\<close>. The row has passed both
  \<^verbatim>\<open>dropna\<close> and the land-use filter, so its coordinates, land use and sampling date
  hold values, which the returned row carries as such.
\<close>

definition with_site_uid :: "(real \<Rightarrow> string) \<Rightarrow> frame_row \<times> int option \<Rightarrow> site option" where
  "with_site_uid float_str rt =
     (case rt of (r, t) \<Rightarrow>
        (case (csv_row.Latitude r, csv_row.Longitude r, csv_row.Predominant_land_use r, t) of
           (Some lat, Some lon, Some land_use, Some midpoint) \<Rightarrow>
             Some \<lparr>Site_number = csv_row.Site_number r,
                   Source_ID = csv_row.Source_ID r,
                   Latitude = lat,
                   Longitude = lon,
                   Predominant_land_use = land_use,
                   Sample_midpoint = midpoint,
                   Country = csv_row.Country r,
                   Use_intensity = csv_row.Use_intensity r,
                   source_file = frame_row.source_file r,
                   site_uid = astype_str_object (csv_row.Source_ID r) @ ''::''
                                @ astype_str_number float_str (csv_row.Site_number r)\<rparr>
         | _ \<Rightarrow> None))"

text \<open>
  \<^verbatim>\<open>pd.to_datetime(column, errors="coerce")\<close> parses the whole column: the date it
  gives for a cell depends on the cell and, through the format it infers, on the column,
  and is \<open>None\<close> (NaT) where the string does not parse in that format. It is not part of
  the script: \<open>to_datetime column d\<close> stands for the date of a cell \<open>d\<close> of the column.
  After line 46 a row is paired with its parsed sampling date. \<^verbatim>\<open>pd.concat\<close> of no
  frame raises a ValueError.
\<close>

definition load_predicts_sites ::
  "(real \<Rightarrow> string) \<Rightarrow> (string list \<Rightarrow> string \<Rightarrow> int option)
     \<Rightarrow> (string \<times> csv_row list) list \<Rightarrow> error + site list" where
  "load_predicts_sites float_str to_datetime paths =
     (let frames = map read_frame paths
      in if frames = [] then Inl ValueError
         else
           let sites = pd_concat frames;
               sites = filter (\<lambda>r. csv_row.Predominant_land_use r \<in> Some ` AG_LAND_USES) sites;
               sites = filter (\<lambda>r. csv_row.Latitude r \<noteq> None \<and> csv_row.Longitude r \<noteq> None
                                   \<and> csv_row.Sample_midpoint r \<noteq> None) sites;
               column = List.map_filter csv_row.Sample_midpoint sites;
               sites = map (\<lambda>r. (r, Option.bind (csv_row.Sample_midpoint r) (to_datetime column)))
                         sites;
               sites = filter (\<lambda>rt. snd rt \<noteq> None) sites
           in Inr (List.map_filter (with_site_uid float_str) sites))"

subsection \<open>Notions used to state the properties\<close>

text \<open>
  An acceptable in-box patch of a site: inside the bounding box the code computes and at
  or under the cloud threshold.
\<close>

definition acceptable :: "site \<Rightarrow> real \<Rightarrow> real \<Rightarrow> patch \<Rightarrow> bool" where
  "acceptable site_row search_radius_deg max_cloud_cover p \<longleftrightarrow>
     in_bounding_box site_row search_radius_deg p \<and> patch.cloud_cover p \<le> max_cloud_cover"

text \<open>
  The acceptable in-box patches of a site whose \<open>distance_km\<close> is the smallest.
\<close>

definition nearest_acceptable :: "distance_function \<Rightarrow> site \<Rightarrow> real \<Rightarrow> real \<Rightarrow> patch list \<Rightarrow> patch list" where
  "nearest_acceptable haversine_f64 site_row search_radius_deg max_cloud_cover meta =
     (let acc = filter (acceptable site_row search_radius_deg max_cloud_cover) meta
      in filter (\<lambda>p. \<forall>q \<in> set acc.
                   candidate_distance_km haversine_f64 site_row p \<le> candidate_distance_km haversine_f64 site_row q) acc)"

text \<open>The lexicographic order on (distance, lag in days, cloud cover), as the specification words it.\<close>

definition lex_le :: "real \<times> int \<times> real \<Rightarrow> real \<times> int \<times> real \<Rightarrow> bool" where
  "lex_le a b \<longleftrightarrow>
     (case (a, b) of ((d1, l1, c1), (d2, l2, c2)) \<Rightarrow>
        d1 < d2 \<or> (d1 = d2 \<and> (l1 < l2 \<or> (l1 = l2 \<and> c1 \<le> c2))))"

text \<open>The eight match fields of an output row, all \<^verbatim>\<open>None\<close> or all set.\<close>

definition match_fields_all_none :: "match_row \<Rightarrow> bool" where
  "match_fields_all_none m \<longleftrightarrow>
     match_row.product_id m = None \<and> eo_timestamp m = None \<and> lag_days m = None \<and>
     match_row.cloud_cover m = None \<and> distance_km m = None \<and>
     match_row.parquet_url m = None \<and> match_row.parquet_row m = None \<and>
     match_row.grid_cell m = None"

definition match_fields_all_some :: "match_row \<Rightarrow> bool" where
  "match_fields_all_some m \<longleftrightarrow>
     match_row.product_id m \<noteq> None \<and> eo_timestamp m \<noteq> None \<and> lag_days m \<noteq> None \<and>
     match_row.cloud_cover m \<noteq> None \<and> distance_km m \<noteq> None \<and>
     match_row.parquet_url m \<noteq> None \<and> match_row.parquet_row m \<noteq> None \<and>
     match_row.grid_cell m \<noteq> None"

text \<open>
  The rows of the concatenated input files; the column of sampling dates that
  \<^verbatim>\<open>pd.to_datetime\<close> is given, which is that of the agricultural rows with coordinates
  and a sampling date; the rows the specification says are returned; and the returned row
  that stands for an input row.
\<close>

definition concatenated_rows :: "(string \<times> csv_row list) list \<Rightarrow> frame_row list" where
  "concatenated_rows paths = pd_concat (map read_frame paths)"

definition agricultural :: "frame_row \<Rightarrow> bool" where
  "agricultural r \<longleftrightarrow>
     (case csv_row.Predominant_land_use r of
        None \<Rightarrow> False
      | Some u \<Rightarrow> u = ''Cropland'' \<or> u = ''Pasture'' \<or> u = ''Plantation forest'')"

definition midpoint_column :: "frame_row list \<Rightarrow> string list" where
  "midpoint_column rows =
     List.map_filter csv_row.Sample_midpoint
       (filter (\<lambda>r. agricultural r \<and> csv_row.Latitude r \<noteq> None \<and> csv_row.Longitude r \<noteq> None)
          rows)"


text \<open>
  The decimal numeral of an integer, read back: the value of a string of digits without
  a superfluous leading zero, with a minus sign before it for a negative number, and
  nothing for any other string.
\<close>

definition is_digit :: "char \<Rightarrow> bool" where
  "is_digit c \<longleftrightarrow> 48 \<le> (of_char c :: nat) \<and> (of_char c :: nat) \<le> 57"





subsection \<open>A small run\<close>

text \<open>
  For the runs below, a distance function: the formula of \<open>haversine_distance\<close>,
  rounded once. At coinciding points it gives 0, as the float64 evaluation of lines 21 to
  29 does, every intermediate value being 0 or 1 there.
\<close>

definition example_haversine :: distance_function where
  "example_haversine lat1 lon1 lat2 lon2 = round_float64 (haversine_distance lat1 lon1 lat2 lon2)"

text \<open>
  A site sampled on 2020-01-06 and patches centred on it: one acquired on 2020-01-01,
  one on 2020-01-06 at noon, one whose timestamp does not parse.
\<close>

definition example_site :: site where
  "example_site =
     \<lparr>Site_number = IntCell 1, Source_ID = Some ''AD1_2001__Liow'', Latitude = 0,
      Longitude = 0,
      Predominant_land_use = ''Cropland'', Sample_midpoint = 1578268800000000000,
      Country = Some ''Singapore'', Use_intensity = None,
      source_file = ''site-level-summary.csv'', site_uid = ''AD1_2001__Liow::1''\<rparr>"

definition example_patch :: "string \<Rightarrow> string \<Rightarrow> int option \<Rightarrow> patch" where
  "example_patch pid ts dt =
     \<lparr>patch.grid_cell = ''0U_0R'', patch.product_id = pid, timestamp = ts,
      patch.cloud_cover = 10, centre_lat = 0, centre_lon = 0,
      patch.parquet_url = ''part_00001.parquet'', patch.parquet_row = 7, timestamp_dt = dt\<rparr>"

definition patch_a :: patch where
  "patch_a = example_patch ''S2A_A'' ''20200101T000000'' (Some 1577836800000000000)"

definition patch_b :: patch where
  "patch_b = example_patch ''S2A_B'' ''20200106T120000'' (Some 1578312000000000000)"

definition patch_nat :: patch where
  "patch_nat = example_patch ''S2A_C'' ''2020-01-01'' None"

text \<open>The rows the run appends for the first and for the second patch.\<close>

definition example_row_a :: match_row where
  "example_row_a =
     site.extend example_site
       (match_row.fields (Some ''S2A_A'') (Some 1577836800000000000) (Some 5) (Some 10)
          (Some 0) (Some ''part_00001.parquet'') (Some 7) (Some ''0U_0R''))"

definition example_row_b :: match_row where
  "example_row_b =
     site.extend example_site
       (match_row.fields (Some ''S2A_B'') (Some 1578312000000000000) (Some 0) (Some 10)
          (Some 0) (Some ''part_00001.parquet'') (Some 7) (Some ''0U_0R''))"

text \<open>
  A PREDICTS file of three rows, of which the second is the site above: the first is not
  agricultural, the sampling date of the third does not parse.
\<close>

definition example_to_datetime :: "string list \<Rightarrow> string \<Rightarrow> int option" where
  "example_to_datetime column d =
     (if d = ''2020-01-06'' then Some 1578268800000000000 else None)"

definition example_float_str :: "real \<Rightarrow> string" where
  "example_float_str x = (if x = 1 then ''1.0'' else ''nan'')"

definition example_csv_row :: "string \<Rightarrow> string \<Rightarrow> csv_row" where
  "example_csv_row land_use midpoint =
     \<lparr>csv_row.Site_number = IntCell 1, csv_row.Source_ID = Some ''AD1_2001__Liow'',
      csv_row.Latitude = Some 0, csv_row.Longitude = Some 0,
      csv_row.Predominant_land_use = Some land_use,
      csv_row.Sample_midpoint = Some midpoint,
      csv_row.Country = Some ''Singapore'', csv_row.Use_intensity = None\<rparr>"


text \<open>
  A site at latitude 15.1 and a patch at latitude 16.1, as float64 holds them: the patch
  is more than one degree from the site, and the float64 sum of the latitude and 1.0 is
  the latitude of the patch.
\<close>

definition lat_15_1 :: real where
  "lat_15_1 = 8500544296661811 / 562949953421312"

definition lat_16_1 :: real where
  "lat_16_1 = 2265873562520781 / 140737488355328"

definition site_15_1 :: site where
  "site_15_1 = example_site\<lparr>Latitude := lat_15_1\<rparr>"

definition patch_16_1 :: patch where
  "patch_16_1 = patch_a\<lparr>centre_lat := lat_16_1\<rparr>"

text \<open>The row the run appends for the patch at latitude 16.1.\<close>

definition row_16_1 :: match_row where
  "row_16_1 =
     site.extend site_15_1
       (match_row.fields (Some ''S2A_A'') (Some 1577836800000000000) (Some 5) (Some 10)
          (Some (example_haversine lat_15_1 0 lat_16_1 0)) (Some ''part_00001.parquet'')
          (Some 7) (Some ''0U_0R''))"

text \<open>
  Two files, the second with a row whose \<open>Site_number\<close> and \<open>Source_ID\<close> cells are
  empty: the \<open>Site_number\<close> column of the concatenation is a float64 column.
\<close>

definition example_paths_float :: "(string \<times> csv_row list) list" where
  "example_paths_float =
     [(''site-level-summary.csv'', [example_csv_row ''Cropland'' ''2020-01-06'']),
      (''site-level-summaries.csv'',
       [(example_csv_row ''Pasture'' ''2020-01-06'')
          \<lparr>csv_row.Site_number := NaNCell, csv_row.Source_ID := None\<rparr>])]"

section \<open>Properties of the distance\<close>

lemma haversine_distance_unfold:
  "haversine_distance lat1 lon1 lat2 lon2 =
     6371 * (2 * arcsin (sqrt (haversine_term lat1 lon1 lat2 lon2)))"
  by (simp add: haversine_distance_def haversine_term_def radians_def Let_def)

lemma sin_squared_le_1: "(sin (t::real))\<^sup>2 \<le> 1"
proof -
  have "(sin t)\<^sup>2 + (cos t)\<^sup>2 = 1" by (rule sin_cos_squared_add)
  moreover have "0 \<le> (cos t)\<^sup>2" by simp
  ultimately show ?thesis by linarith
qed

lemma sin_half_squared: "(sin (x / 2))\<^sup>2 = (1 - cos x) / 2" for x :: real
proof -
  have "cos x = cos (2 * (x / 2))" by simp
  also have "\<dots> = 1 - 2 * (sin (x / 2))\<^sup>2" by (rule cos_double_sin)
  finally show ?thesis by simp
qed

lemma cos_times_cos: "cos x * cos y = (cos (x - y) + cos (x + y)) / 2" for x y :: real
  by (simp add: cos_diff cos_add)

text \<open>The haversine term lies in the unit interval for all real coordinates.\<close>

lemma haversine_term_rewrite:
  "haversine_term lat1 lon1 lat2 lon2 =
     (1 - cos ((lat2 - lat1) * pi / 180)) / 2
       + (cos ((lat2 - lat1) * pi / 180) + cos ((lat1 + lat2) * pi / 180)) / 2
         * (sin ((lon2 - lon1) * pi / 180 / 2))\<^sup>2"
proof -
  have e1: "lat1 * pi / 180 - lat2 * pi / 180 = - ((lat2 - lat1) * pi / 180)"
    by (simp add: field_simps)
  have e2: "lat1 * pi / 180 + lat2 * pi / 180 = (lat1 + lat2) * pi / 180"
    by (simp add: field_simps)
  have cc: "cos (lat1 * pi / 180) * cos (lat2 * pi / 180)
      = (cos ((lat2 - lat1) * pi / 180) + cos ((lat1 + lat2) * pi / 180)) / 2"
    by (simp only: cos_times_cos e1 e2 cos_minus)
  show ?thesis
    unfolding haversine_term_def
    by (simp only: cc sin_half_squared[of "(lat2 - lat1) * pi / 180"])
qed

lemma convex_mix_bounds:
  fixes D S s :: real
  assumes "- 1 \<le> D" "D \<le> 1" "- 1 \<le> S" "S \<le> 1" "0 \<le> s" "s \<le> 1"
  shows "0 \<le> (1 - D) / 2 + (D + S) / 2 * s"
    and "(1 - D) / 2 + (D + S) / 2 * s \<le> 1"
proof -
  have lo: "(1 - D) / 2 + (D + S) / 2 * s = ((1 - D) * (1 - s) + s * (1 + S)) / 2"
    by (simp add: field_simps)
  have hi: "1 - ((1 - D) / 2 + (D + S) / 2 * s) = ((1 + D) * (1 - s) + s * (1 - S)) / 2"
    by (simp add: field_simps)
  have "0 \<le> (1 - D) * (1 - s)" "0 \<le> s * (1 + S)"
    "0 \<le> (1 + D) * (1 - s)" "0 \<le> s * (1 - S)"
    using assms by (simp_all add: mult_nonneg_nonneg)
  then have "0 \<le> ((1 - D) * (1 - s) + s * (1 + S)) / 2"
    and "0 \<le> ((1 + D) * (1 - s) + s * (1 - S)) / 2"
    by simp_all
  then show "0 \<le> (1 - D) / 2 + (D + S) / 2 * s"
    and "(1 - D) / 2 + (D + S) / 2 * s \<le> 1"
    using lo hi by linarith+
qed

lemma haversine_term_nonneg: "0 \<le> haversine_term lat1 lon1 lat2 lon2"
  unfolding haversine_term_rewrite
  by (rule convex_mix_bounds(1)) (simp_all add: sin_squared_le_1)

lemma haversine_term_le_one: "haversine_term lat1 lon1 lat2 lon2 \<le> 1"
  unfolding haversine_term_rewrite
  by (rule convex_mix_bounds(2)) (simp_all add: sin_squared_le_1)

lemma haversine_term_sym:
  "haversine_term lat1 lon1 lat2 lon2 = haversine_term lat2 lon2 lat1 lon1"
proof -
  have sq: "(sin ((x - y) * pi / 180 / 2))\<^sup>2 = (sin ((y - x) * pi / 180 / 2))\<^sup>2" for x y :: real
  proof -
    have "(x - y) * pi / 180 / 2 = - ((y - x) * pi / 180 / 2)" by (simp add: field_simps)
    then show ?thesis by (simp only: sin_minus power2_minus)
  qed
  have cc: "cos (lat1 * pi / 180) * cos (lat2 * pi / 180)
      = cos (lat2 * pi / 180) * cos (lat1 * pi / 180)"
    by (rule mult.commute)
  show ?thesis
    unfolding haversine_term_def
    by (simp only: sq[of lat2 lat1] sq[of lon2 lon1] cc)
qed

lemma haversine_distance_nonneg: "0 \<le> haversine_distance lat1 lon1 lat2 lon2"
proof -
  let ?a = "haversine_term lat1 lon1 lat2 lon2"
  have "0 \<le> sqrt ?a" using haversine_term_nonneg by simp
  moreover have "sqrt ?a \<le> 1" using haversine_term_le_one by simp
  ultimately have "0 \<le> arcsin (sqrt ?a)" by (simp add: arcsin_nonneg)
  then show ?thesis by (simp add: haversine_distance_unfold)
qed

section \<open>Properties of the rounding\<close>

lemma round_half_even_error: "\<bar>of_int (round_half_even q) - q\<bar> \<le> 1 / 2"
  unfolding round_half_even_def Let_def by (auto simp: abs_if) linarith+

lemma round_half_even_of_int [simp]: "round_half_even (of_int k) = k"
  by (simp add: round_half_even_def)

lemma float64_exponent_eq:
  assumes "2 powi k \<le> \<bar>x\<bar>" "\<bar>x\<bar> < 2 powi (k + 1)" "- 1022 \<le> k"
  shows "float64_exponent x = k"
proof -
  have pos: "0 < \<bar>x\<bar>" using assms(1) by (smt (verit) zero_less_power_int)
  have a: "(2::real) powr of_int k = 2 powi k"
    by (simp add: powr_real_of_int')
  have "(2::real) powr of_int (k + 1) = 2 powi (k + 1)"
    by (rule powr_real_of_int') simp_all
  then have b: "(2::real) powr (of_int k + 1) = 2 powi (k + 1)"
    by simp
  have "\<lfloor>log 2 \<bar>x\<bar>\<rfloor> = k"
    using assms(1,2) pos by (simp add: floor_log_eq_powr_iff a b)
  then show ?thesis using assms(3) by (simp add: float64_exponent_def)
qed

lemma round_float64_error: "\<bar>round_float64 x - x\<bar> \<le> half_ulp x"
proof (cases "x = 0")
  case True
  then show ?thesis by (simp add: round_float64_def half_ulp_def)
next
  case False
  define e where "e = float64_exponent x - 52"
  have p: "(0::real) < 2 powi e" by simp
  have "round_float64 x - x = (of_int (round_half_even (x / 2 powi e)) - x / 2 powi e) * 2 powi e"
    using False p by (simp add: round_float64_def e_def Let_def field_simps)
  then have "\<bar>round_float64 x - x\<bar>
      = \<bar>of_int (round_half_even (x / 2 powi e)) - x / 2 powi e\<bar> * 2 powi e"
    using p by (simp add: abs_mult)
  also have "\<dots> \<le> 1 / 2 * 2 powi e"
    using round_half_even_error p by (intro mult_right_mono) simp_all
  also have "\<dots> = half_ulp x"
    by (simp add: half_ulp_def e_def power_int_diff)
  finally show ?thesis .
qed

lemma round_float64_grid:
  assumes "float64_exponent x = k" "x = of_int m * 2 powi (k - 52)"
  shows "round_float64 x = x"
  using assms by (simp add: round_float64_def Let_def)

lemma round_float64_1: "round_float64 1 = 1"
proof -
  have "float64_exponent 1 = 0" by (rule float64_exponent_eq) simp_all
  then show ?thesis by (rule round_float64_grid[where m = "2 ^ 52"]) (simp add: power_int_minus)
qed

lemma round_float64_minus_1: "round_float64 (- 1) = - 1"
proof -
  have "float64_exponent (- 1) = 0" by (rule float64_exponent_eq) simp_all
  then show ?thesis by (rule round_float64_grid[where m = "- (2 ^ 52)"]) (simp add: power_int_minus)
qed

lemma float64_add_15_1: "float64_add lat_15_1 1 = lat_16_1"
proof -
  have e: "float64_exponent (lat_15_1 + 1) = 4"
    by (rule float64_exponent_eq) (simp_all add: lat_15_1_def)
  have q: "(lat_15_1 + 1) / 2 powi (4 - 52) = 9063494250083123 / 2"
    by (simp add: lat_15_1_def power_int_minus)
  have fl: "\<lfloor>9063494250083123 / 2 :: real\<rfloor> = 4531747125041561"
    by (simp add: floor_eq_iff)
  have "round_half_even (9063494250083123 / 2) = 4531747125041562"
    unfolding round_half_even_def Let_def fl by simp
  then show ?thesis
    using e q by (simp add: float64_add_def round_float64_def Let_def lat_15_1_def lat_16_1_def power_int_minus)
qed

lemma float64_sub_15_1: "float64_sub lat_15_1 1 = lat_15_1 - 1"
proof -
  have e: "float64_exponent (lat_15_1 - 1) = 3"
    by (rule float64_exponent_eq) (simp_all add: lat_15_1_def)
  show ?thesis unfolding float64_sub_def
    by (rule round_float64_grid[OF e, where m = 7937594343240499])
       (simp add: lat_15_1_def power_int_minus)
qed

lemma lat_16_1_far: "lat_16_1 - lat_15_1 > 1"
  by (simp add: lat_15_1_def lat_16_1_def)

section \<open>Properties of the matching\<close>

lemma filter_acceptable:
  "(\<lambda>p. in_bounding_box s r p \<and> patch.cloud_cover p \<le> c) = acceptable s r c"
  by (simp add: fun_eq_iff acceptable_def)

lemma ranked_candidates_eq:
  "ranked_candidates hav r n c meta s =
     sort_values hav s (nsmallest n (candidate_distance_km hav s) (filter (acceptable s r c) meta))"
  by (simp add: ranked_candidates_def Let_def filter_acceptable)

lemma set_ranked_candidates:
  "set (ranked_candidates hav r n c meta s) \<subseteq> {p \<in> set meta. acceptable s r c p}"
proof -
  let ?F = "filter (acceptable s r c) meta"
  have "set (ranked_candidates hav r n c meta s)
      = set (take (nat n) (sort_key (candidate_distance_km hav s) ?F))"
    by (simp add: ranked_candidates_eq sort_values_def nsmallest_def)
  also have "\<dots> \<subseteq> set (sort_key (candidate_distance_km hav s) ?F)"
    by (rule set_take_subset)
  also have "\<dots> = {p \<in> set meta. acceptable s r c p}"
    by simp
  finally show ?thesis .
qed

lemma match_site_cases:
  "match_site hav r n c meta s =
     (if \<exists>p \<in> set meta. acceptable s r c p
      then (case best_candidate hav r n c meta s of
              None \<Rightarrow> Inl IndexError
            | Some best \<Rightarrow> matched hav s best)
      else Inr (no_match s))"
proof (cases "\<exists>p \<in> set meta. acceptable s r c p")
  case True
  then have ne: "filter (acceptable s r c) meta \<noteq> []"
    by (simp add: filter_empty_conv)
  then have ne': "filter (in_bounding_box s r) meta \<noteq> []"
    by (auto simp: filter_empty_conv acceptable_def)
  show ?thesis
    using True ne ne'
    by (simp add: match_site_def Let_def filter_acceptable best_candidate_def
        ranked_candidates_eq split: list.splits)
next
  case False
  then have "filter (acceptable s r c) meta = []"
    by (simp add: filter_empty_conv)
  then show ?thesis
    using False by (simp add: match_site_def Let_def filter_acceptable)
qed

lemma best_candidate_acceptable:
  assumes "best_candidate hav r n c meta s = Some best"
  shows "best \<in> set meta" and "acceptable s r c best"
proof -
  from assms obtain rest where "ranked_candidates hav r n c meta s = best # rest"
    by (auto simp: best_candidate_def split: list.splits)
  then have "best \<in> set (ranked_candidates hav r n c meta s)" by simp
  with set_ranked_candidates show "best \<in> set meta" and "acceptable s r c best"
    by blast+
qed

lemma match_loop_Inr:
  "match_loop hav r n c meta sites = Inr out \<Longrightarrow>
     length out = length sites \<and>
     (\<forall>i < length sites. match_site hav r n c meta (sites ! i) = Inr (out ! i))"
proof (induction sites arbitrary: out)
  case Nil
  then show ?case by simp
next
  case (Cons a sites)
  from Cons.prems obtain m ms where
    m: "match_site hav r n c meta a = Inr m" and
    ms: "match_loop hav r n c meta sites = Inr ms" and
    out: "out = m # ms"
    by (auto split: sum.splits)
  from Cons.IH[OF ms] have len: "length ms = length sites"
    and nth: "\<And>i. i < length sites \<Longrightarrow> match_site hav r n c meta (sites ! i) = Inr (ms ! i)"
    by simp_all
  show ?case
  proof (intro conjI allI impI)
    show "length out = length (a # sites)" using len out by simp
  next
    fix i assume "i < length (a # sites)"
    then show "match_site hav r n c meta ((a # sites) ! i) = Inr (out ! i)"
      using m nth out by (cases i) simp_all
  qed
qed

lemma match_loop_total:
  assumes "\<And>s. s \<in> set sites \<Longrightarrow> \<exists>m. match_site hav r n c meta s = Inr m"
  shows "\<exists>out. match_loop hav r n c meta sites = Inr out"
  using assms
proof (induction sites)
  case Nil
  then show ?case by simp
next
  case (Cons a sites)
  then obtain m where "match_site hav r n c meta a = Inr m" by force
  moreover from Cons obtain ms where "match_loop hav r n c meta sites = Inr ms" by force
  ultimately show ?case by simp
qed

lemma no_match_fields:
  "site.truncate (no_match s) = s"
  "match_fields_all_none (no_match s)"
  "match_row.product_id (no_match s) = None"
  by (simp_all add: no_match_def site.defs match_row.defs match_fields_all_none_def)

lemma matched_Inr:
  assumes "matched hav s best = Inr m"
  shows "site.truncate m = s"
    and "match_row.product_id m = Some (patch.product_id best)"
    and "eo_timestamp m = timestamp_dt best"
    and "lag_days m = candidate_lag_days s best"
    and "match_row.cloud_cover m = Some (patch.cloud_cover best)"
    and "distance_km m = Some (candidate_distance_km hav s best)"
    and "match_row.parquet_url m = Some (patch.parquet_url best)"
    and "match_row.parquet_row m = Some (patch.parquet_row best)"
    and "match_row.grid_cell m = Some (patch.grid_cell best)"
    and "candidate_lag_days s best \<noteq> None"
  using assms
  by (auto simp: matched_def site.defs match_row.defs split: option.splits)

lemma candidate_lag_days_Some:
  "candidate_lag_days s p = Some l \<longleftrightarrow>
     (\<exists>t. timestamp_dt p = Some t \<and> l = \<bar>t - Sample_midpoint s\<bar> div ns_per_day)"
  by (auto simp: candidate_lag_days_def split: option.splits)

lemma matched_all_some:
  assumes "matched hav s best = Inr m"
  shows "match_fields_all_some m"
proof -
  from matched_Inr(10)[OF assms] obtain l where l: "candidate_lag_days s best = Some l"
    by auto
  then obtain t where "timestamp_dt best = Some t"
    by (auto simp: candidate_lag_days_Some)
  with l show ?thesis
    using matched_Inr[OF assms] by (simp add: match_fields_all_some_def)
qed

lemma matched_total:
  "timestamp_dt best \<noteq> None \<Longrightarrow> \<exists>m. matched hav s best = Inr m"
  by (auto simp: matched_def candidate_lag_days_def split: option.splits)

text \<open>What the loop body leaves for a site: no match, or the row of the best candidate.\<close>

lemma match_site_Inr:
  assumes "match_site hav r n c meta s = Inr m"
  shows "(\<not> (\<exists>p \<in> set meta. acceptable s r c p) \<and> m = no_match s) \<or>
         (\<exists>best. best_candidate hav r n c meta s = Some best \<and> matched hav s best = Inr m)"
  using assms
  by (auto simp: match_site_cases split: if_splits option.splits)

lemma best_candidate_exists:
  assumes "\<exists>p \<in> set meta. acceptable s r c p" and "1 \<le> n"
  shows "\<exists>best. best_candidate hav r n c meta s = Some best"
proof -
  let ?F = "filter (acceptable s r c) meta"
  from assms(1) have "?F \<noteq> []" by (simp add: filter_empty_conv)
  then have "0 < length (sort_key (candidate_distance_km hav s) ?F)" by simp
  moreover have "0 < nat n" using assms(2) by simp
  ultimately have "0 < length (take (nat n) (sort_key (candidate_distance_km hav s) ?F))"
    by simp
  moreover have "length (ranked_candidates hav r n c meta s)
      = length (take (nat n) (sort_key (candidate_distance_km hav s) ?F))"
    unfolding ranked_candidates_eq sort_values_def nsmallest_def by (rule length_sort)
  ultimately have "ranked_candidates hav r n c meta s \<noteq> []"
    by (simp only: length_greater_0_conv[symmetric])
  then show ?thesis
    by (auto simp: best_candidate_def split: list.splits)
qed

lemma match_site_total:
  assumes "\<forall>p \<in> set meta. timestamp_dt p \<noteq> None" and "1 \<le> n"
  shows "\<exists>m. match_site hav r n c meta s = Inr m"
proof (cases "\<exists>p \<in> set meta. acceptable s r c p")
  case True
  from best_candidate_exists[OF True assms(2)] obtain best
    where best: "best_candidate hav r n c meta s = Some best" by blast
  then have "best \<in> set meta" by (rule best_candidate_acceptable)
  with assms(1) have "timestamp_dt best \<noteq> None" by blast
  from matched_total[OF this] show ?thesis
    using True best by (simp add: match_site_cases)
next
  case False
  then show ?thesis by (simp add: match_site_cases)
qed

lemma match_nearest_patches_total:
  assumes "\<forall>p \<in> set meta. timestamp_dt p \<noteq> None" and "1 \<le> n"
  shows "\<exists>out. match_nearest_patches hav sites meta r n c = Inr out"
  unfolding match_nearest_patches_def
  by (rule match_loop_total) (rule match_site_total[OF assms])

lemma match_nearest_patches_Inr:
  assumes "match_nearest_patches hav sites meta r n c = Inr out"
  shows "length out = length sites"
    and "i < length sites \<Longrightarrow> match_site hav r n c meta (sites ! i) = Inr (out ! i)"
  using match_loop_Inr[of hav r n c meta sites out] assms
  by (simp_all add: match_nearest_patches_def)

lemma match_site_truncate:
  assumes "match_site hav r n c meta s = Inr m"
  shows "site.truncate m = s"
  using match_site_Inr[OF assms] no_match_fields(1) matched_Inr(1) by auto

lemma hd_sort_key_least:
  fixes f :: "'a \<Rightarrow> 'k::linorder"
  assumes "sort_key f xs = b # rest" and "x \<in> set xs"
  shows "f b \<le> f x"
proof -
  have "sorted (map f (sort_key f xs))" by (rule sorted_sort_key)
  with assms(1) have "\<forall>y \<in> set rest. f b \<le> f y" by simp
  moreover have "x \<in> set (b # rest)" using assms by (metis set_sort)
  ultimately show ?thesis by auto
qed

lemma sorted_take_le_drop:
  fixes f :: "'a \<Rightarrow> 'k::linorder"
  assumes "sorted (map f S)" and "t \<in> set (take k S)" and "q \<in> set (drop k S)"
  shows "f t \<le> f q"
proof -
  have "sorted (map f (take k S) @ map f (drop k S))"
    using assms(1) by (simp only: map_append[symmetric] append_take_drop_id)
  then show ?thesis
    using assms(2,3) by (auto simp: sorted_append)
qed

lemma least_in_take:
  fixes f :: "'a \<Rightarrow> 'k::linorder"
  assumes srt: "sorted (map f S)"
    and q: "q \<in> set S" "\<forall>x \<in> set S. f q \<le> f x"
    and cnt: "length (filter (\<lambda>p. \<forall>x \<in> set S. f p \<le> f x) S) \<le> k"
  shows "q \<in> set (take k S)"
proof (rule ccontr)
  let ?P = "\<lambda>p. \<forall>x \<in> set S. f p \<le> f x"
  assume nin: "q \<notin> set (take k S)"
  have "set S = set (take k S) \<union> set (drop k S)"
    by (metis append_take_drop_id set_append)
  with q(1) nin have qd: "q \<in> set (drop k S)" by blast
  then have "k < length S" by (cases "k < length S") simp_all
  then have lt: "length (take k S) = k" by simp
  have "\<forall>t \<in> set (take k S). ?P t"
  proof
    fix t assume "t \<in> set (take k S)"
    from sorted_take_le_drop[OF srt this qd] have "f t \<le> f q" .
    with q(2) show "?P t" by (meson order_trans)
  qed
  then have ft: "filter ?P (take k S) = take k S" by (simp add: filter_id_conv)
  have "q \<in> set (filter ?P (drop k S))" using qd q(2) by simp
  then have "0 < length (filter ?P (drop k S))" by (simp only: length_pos_if_in_set)
  moreover have "filter ?P S = filter ?P (take k S) @ filter ?P (drop k S)"
    by (simp only: filter_append[symmetric] append_take_drop_id)
  ultimately have "k < length (filter ?P S)" using ft lt by simp
  with cnt show False by simp
qed

lemma best_candidate_least:
  assumes best: "best_candidate hav r n c meta s = Some best"
    and cap: "int (length (nearest_acceptable hav s r c meta)) \<le> n"
    and q: "q \<in> set meta" "acceptable s r c q"
  shows "sort_values_key hav s best \<le> sort_values_key hav s q"
proof -
  let ?d = "candidate_distance_km hav s"
  let ?F = "filter (acceptable s r c) meta"
  let ?S = "sort_key ?d ?F"
  let ?T = "take (nat n) ?S"
  let ?P = "\<lambda>p. \<forall>x \<in> set ?S. ?d p \<le> ?d x"
  from best obtain rest where R: "sort_key (sort_values_key hav s) ?T = best # rest"
    by (auto simp: best_candidate_def ranked_candidates_eq sort_values_def nsmallest_def
        split: list.splits)
  have least_T: "sort_values_key hav s best \<le> sort_values_key hav s t" if "t \<in> set ?T" for t
    using hd_sort_key_least[OF R that] .
  have srt: "sorted (map ?d ?S)" by (rule sorted_sort_key)
  have qS: "q \<in> set ?S" using q by simp
  have "best \<in> set (sort_key (sort_values_key hav s) ?T)" using R by simp
  then have bT: "best \<in> set ?T" by (simp only: set_sort)
  then have T_ne: "?T \<noteq> []" by auto
  then have S_ne: "?S \<noteq> []" and n_pos: "0 < nat n" by auto
  from S_ne obtain h S' where S: "?S = h # S'" by (cases ?S) auto
  have h_least: "?d h \<le> ?d x" if "x \<in> set ?S" for x
    using srt that unfolding S by auto
  have "h \<in> set ?T" using n_pos unfolding S by (cases "nat n") simp_all
  from least_T[OF this] have "?d best \<le> ?d h"
    by (auto simp: sort_values_key_def less_eq_prod_def)
  then have best_least: "?d best \<le> ?d x" if "x \<in> set ?S" for x
    using h_least[OF that] by simp
  have cnt: "length (filter ?P ?S) \<le> nat n"
  proof -
    have "filter ?P ?S = sort_key ?d (filter ?P ?F)" by (rule filter_sort)
    then have "length (filter ?P ?S) = length (filter ?P ?F)" by simp
    also have "filter ?P ?F = nearest_acceptable hav s r c meta"
      by (simp add: nearest_acceptable_def Let_def)
    finally show ?thesis using cap by simp
  qed
  show ?thesis
  proof (cases "?d best < ?d q")
    case True
    then show ?thesis by (simp add: sort_values_key_def less_eq_prod_def)
  next
    case False
    then have "\<forall>x \<in> set ?S. ?d q \<le> ?d x"
      using best_least by force
    from least_in_take[OF srt qS this cnt] have "q \<in> set ?T" .
    then show ?thesis by (rule least_T)
  qed
qed

lemma sort_values_key_le_iff:
  assumes "candidate_lag_days s p = Some lp"
  shows "sort_values_key hav s p \<le> sort_values_key hav s q \<longleftrightarrow>
     (case candidate_lag_days s q of
        None \<Rightarrow> candidate_distance_km hav s p \<le> candidate_distance_km hav s q
      | Some lq \<Rightarrow>
          lex_le (candidate_distance_km hav s p, lp, patch.cloud_cover p)
                 (candidate_distance_km hav s q, lq, patch.cloud_cover q))"
  using assms
  by (auto simp: sort_values_key_def lag_sort_key_def less_eq_prod_def less_prod_def lex_le_def
      split: option.splits)

lemma haversine_distance_same: "haversine_distance lat lon lat lon = 0"
  by (simp add: haversine_distance_unfold haversine_term_def)

lemma example_distance:
  "candidate_distance_km example_haversine example_site (example_patch pid ts dt) = 0"
  by (simp add: candidate_distance_km_def example_site_def example_patch_def
      example_haversine_def haversine_distance_same round_float64_def)

lemma example_acceptable:
  "acceptable example_site 1 50 (example_patch pid ts dt)"
  by (simp add: acceptable_def in_bounding_box_def example_site_def example_patch_def
      float64_add_def float64_sub_def round_float64_1 round_float64_minus_1)

lemma example_lag:
  "candidate_lag_days example_site patch_a = Some 5"
  "candidate_lag_days example_site patch_b = Some 0"
  "candidate_lag_days example_site patch_nat = None"
  by (simp_all add: candidate_lag_days_def example_site_def example_patch_def patch_a_def
      patch_b_def patch_nat_def ns_per_day_def)

lemma example_best_single:
  "best_candidate example_haversine 1 1000 50 [example_patch pid ts dt] example_site = Some (example_patch pid ts dt)"
  by (simp add: best_candidate_def ranked_candidates_eq example_acceptable
      nsmallest_def sort_values_def)

lemma example_run_single:
  "main_matches example_haversine [example_site] [example_patch pid ts dt]
     = (case matched example_haversine example_site (example_patch pid ts dt) of
          Inl e \<Rightarrow> Inl e | Inr m \<Rightarrow> Inr [m])"
  using example_acceptable[of pid ts dt]
  by (simp add: main_matches_def match_nearest_patches_def match_site_cases
      example_best_single split: sum.splits)

lemma example_run_nat: "main_matches example_haversine [example_site] [patch_nat] = Inl ValueError"
proof -
  have "matched example_haversine example_site patch_nat = Inl ValueError"
    by (simp add: matched_def example_lag)
  then show ?thesis
    unfolding patch_nat_def by (simp add: example_run_single)
qed

lemma example_run_a:
  "main_matches example_haversine [example_site] [patch_a] =
     Inr [site.extend example_site
           (match_row.fields (Some ''S2A_A'') (Some 1577836800000000000) (Some 5) (Some 10)
              (Some 0) (Some ''part_00001.parquet'') (Some 7) (Some ''0U_0R''))]"
proof -
  have "matched example_haversine example_site patch_a =
     Inr (site.extend example_site
           (match_row.fields (Some ''S2A_A'') (Some 1577836800000000000) (Some 5) (Some 10)
              (Some 0) (Some ''part_00001.parquet'') (Some 7) (Some ''0U_0R'')))"
    by (simp add: matched_def example_lag)
       (simp add: patch_a_def example_distance, simp add: example_patch_def)
  then show ?thesis
    unfolding patch_a_def by (simp add: example_run_single)
qed

lemma matched_output:
  assumes run: "match_nearest_patches hav sites meta r n c = Inr out"
    and i: "i < length sites"
    and some: "match_row.product_id (out ! i) \<noteq> None"
  shows "\<exists>best. best_candidate hav r n c meta (sites ! i) = Some best
           \<and> matched hav (sites ! i) best = Inr (out ! i)"
proof -
  from match_nearest_patches_Inr(2)[OF run i]
  have "match_site hav r n c meta (sites ! i) = Inr (out ! i)" .
  from match_site_Inr[OF this] some show ?thesis
    by (auto simp: no_match_fields)
qed

lemma example_run:
  "match_nearest_patches example_haversine [example_site] [patch_a] 1 1000 50 = Inr [example_row_a]"
  using example_run_a by (simp add: main_matches_def example_row_a_def)

lemma example_row_a_fields:
  "match_row.product_id ([example_row_a] ! 0) \<noteq> None"
  "match_row.product_id example_row_a = Some ''S2A_A''"
  "eo_timestamp example_row_a = Some 1577836800000000000"
  "lag_days example_row_a = Some 5"
  "match_row.cloud_cover example_row_a = Some 10"
  "distance_km example_row_a = Some 0"
  "site.truncate example_row_a = example_site"
  by (simp_all add: example_row_a_def site.defs match_row.defs)

lemma example_index: "(0::nat) < length [example_site]"
  by simp

lemma example_best_a: "best_candidate example_haversine 1 1000 50 [patch_a] example_site = Some patch_a"
  unfolding patch_a_def by (rule example_best_single)

lemma example_nearest_a:
  "nearest_acceptable example_haversine example_site 1 50 [patch_a, patch_b] = [patch_a, patch_b]"
  unfolding patch_a_def patch_b_def
  by (simp add: nearest_acceptable_def example_acceptable example_distance)

lemma example_keys:
  "sort_values_key example_haversine example_site patch_a = (0, (False, 5), 10)"
  "sort_values_key example_haversine example_site patch_b = (0, (False, 0), 10)"
  by (simp_all add: sort_values_key_def example_lag lag_sort_key_def,
      simp_all add: patch_a_def patch_b_def example_distance, simp_all add: example_patch_def)

lemma example_matched_b: "matched example_haversine example_site patch_b = Inr example_row_b"
  by (simp add: matched_def example_lag example_row_b_def)
     (simp add: patch_b_def example_distance, simp add: example_patch_def)

lemma example_acceptable_ab:
  "acceptable example_site 1 50 patch_a" "acceptable example_site 1 50 patch_b"
  unfolding patch_a_def patch_b_def by (rule example_acceptable)+

lemma example_distance_ab:
  "candidate_distance_km example_haversine example_site patch_a = 0"
  "candidate_distance_km example_haversine example_site patch_b = 0"
  unfolding patch_a_def patch_b_def by (rule example_distance)+

lemma example_best_ab:
  "best_candidate example_haversine 1 1000 50 [patch_a, patch_b] example_site = Some patch_b"
  by (simp add: best_candidate_def ranked_candidates_eq example_acceptable_ab
      nsmallest_def sort_values_def example_distance_ab example_keys less_eq_prod_def)

lemma example_run_ab:
  "match_nearest_patches example_haversine [example_site] [patch_a, patch_b] 1 1000 50 = Inr [example_row_b]"
  using example_acceptable_ab
  by (simp add: match_nearest_patches_def match_site_cases example_best_ab example_matched_b)

text \<open>A thousand copies of the first patch followed by the second.\<close>

lemma example_crowd_distance:
  "map (candidate_distance_km example_haversine example_site) (replicate 1000 patch_a @ [patch_b])
     = replicate 1000 0 @ [0]"
  by (simp add: example_distance_ab)

lemma example_crowd_ranked:
  "ranked_candidates example_haversine 1 1000 50 (replicate 1000 patch_a @ [patch_b]) example_site
     = replicate 1000 patch_a"
proof -
  let ?meta = "replicate 1000 patch_a @ [patch_b]"
  have F: "filter (acceptable example_site 1 50) ?meta = ?meta"
    by (simp add: filter_id_conv example_acceptable_ab)
  have "sorted (map (candidate_distance_km example_haversine example_site) ?meta)"
    unfolding example_crowd_distance by (simp add: sorted_append)
  then have S: "sort_key (candidate_distance_km example_haversine example_site) ?meta = ?meta"
    by (rule sort_key_id_if_sorted)
  have T: "take (nat 1000) ?meta = replicate 1000 patch_a"
    by simp
  have "sorted (map (sort_values_key example_haversine example_site) (replicate 1000 patch_a))"
    by simp
  then have R: "sort_key (sort_values_key example_haversine example_site) (replicate 1000 patch_a)
      = replicate 1000 patch_a"
    by (rule sort_key_id_if_sorted)
  show ?thesis
    by (simp only: ranked_candidates_eq nsmallest_def sort_values_def F S T R)
qed

lemma example_crowd_run:
  "main_matches example_haversine [example_site] (replicate 1000 patch_a @ [patch_b]) = Inr [example_row_a]"
proof -
  have hd: "replicate 1000 patch_a = patch_a # replicate 999 patch_a"
    by (simp add: replicate_Suc[symmetric] del: replicate_Suc)
  have "best_candidate example_haversine 1 1000 50 (replicate 1000 patch_a @ [patch_b]) example_site
      = Some patch_a"
    unfolding best_candidate_def example_crowd_ranked by (subst hd) simp
  moreover have "matched example_haversine example_site patch_a = Inr example_row_a"
    using example_run_a
    by (simp add: example_run_single[of "''S2A_A''" "''20200101T000000''"
          "Some 1577836800000000000", folded patch_a_def] example_row_a_def
        split: sum.splits)
  moreover have "\<exists>p \<in> set (replicate 1000 patch_a @ [patch_b]). acceptable example_site 1 50 p"
    using example_acceptable_ab by simp
  ultimately show ?thesis
    by (simp add: main_matches_def match_nearest_patches_def match_site_cases)
qed

lemma match_nearest_patches_frame:
  assumes "match_nearest_patches hav sites meta r n c = Inr out"
  shows "length out = length sites" and "map site.truncate out = sites"
proof -
  show len: "length out = length sites"
    by (rule match_nearest_patches_Inr(1)[OF assms])
  show "map site.truncate out = sites"
  proof (rule nth_equalityI)
    show "length (map site.truncate out) = length sites" using len by simp
  next
    fix i assume "i < length (map site.truncate out)"
    then have i: "i < length sites" using len by simp
    from match_site_truncate[OF match_nearest_patches_Inr(2)[OF assms i]] i len
    show "map site.truncate out ! i = sites ! i" by simp
  qed
qed

lemma example_parses: "\<forall>p \<in> set [patch_a, patch_b]. timestamp_dt p \<noteq> None"
  by (simp add: patch_a_def patch_b_def example_patch_def)

lemma example_run_cap_1:
  "match_nearest_patches example_haversine [example_site] [patch_a, patch_b] 1 1 50 = Inr [example_row_a]"
proof -
  have "best_candidate example_haversine 1 1 50 [patch_a, patch_b] example_site = Some patch_a"
    by (simp add: best_candidate_def ranked_candidates_eq example_acceptable_ab
        nsmallest_def sort_values_def example_distance_ab)
  moreover have "matched example_haversine example_site patch_a = Inr example_row_a"
    by (simp add: matched_def example_lag example_row_a_def)
       (simp add: patch_a_def example_distance, simp add: example_patch_def)
  ultimately show ?thesis
    using example_acceptable_ab
    by (simp add: match_nearest_patches_def match_site_cases)
qed

lemma site_15_1_fields:
  "Latitude site_15_1 = lat_15_1" "Longitude site_15_1 = 0"
  "Sample_midpoint site_15_1 = 1578268800000000000"
  by (simp_all add: site_15_1_def example_site_def)

lemma patch_16_1_fields:
  "centre_lat patch_16_1 = lat_16_1" "centre_lon patch_16_1 = 0"
  "patch.cloud_cover patch_16_1 = 10" "timestamp_dt patch_16_1 = Some 1577836800000000000"
  "patch.product_id patch_16_1 = ''S2A_A''" "patch.parquet_url patch_16_1 = ''part_00001.parquet''"
  "patch.parquet_row patch_16_1 = 7" "patch.grid_cell patch_16_1 = ''0U_0R''"
  by (simp_all add: patch_16_1_def patch_a_def example_patch_def)

lemma in_bounding_box_16_1: "in_bounding_box site_15_1 1 patch_16_1"
proof -
  have "lat_15_1 - 1 \<le> lat_16_1" by (simp add: lat_15_1_def lat_16_1_def)
  then show ?thesis
    by (simp add: in_bounding_box_def site_15_1_fields patch_16_1_fields float64_add_15_1
        float64_sub_15_1)
       (simp add: float64_add_def float64_sub_def round_float64_1 round_float64_minus_1)
qed

lemma best_candidate_16_1:
  "best_candidate example_haversine 1 1000 50 [patch_16_1] site_15_1 = Some patch_16_1"
  using in_bounding_box_16_1
  by (simp add: best_candidate_def ranked_candidates_eq acceptable_def patch_16_1_fields
      nsmallest_def sort_values_def)

lemma matched_16_1: "matched example_haversine site_15_1 patch_16_1 = Inr row_16_1"
  by (simp add: matched_def candidate_lag_days_def candidate_distance_km_def row_16_1_def
      site_15_1_fields patch_16_1_fields ns_per_day_def)

lemma run_16_1: "main_matches example_haversine [site_15_1] [patch_16_1] = Inr [row_16_1]"
  using in_bounding_box_16_1
  by (simp add: main_matches_def match_nearest_patches_def match_site_cases acceptable_def
      patch_16_1_fields best_candidate_16_1 matched_16_1)

lemma float64_bounds:
  assumes "float64_sub x r \<le> y" and "y \<le> float64_add x r"
  shows "\<bar>y - x\<bar> \<le> r + max (half_ulp (x - r)) (half_ulp (x + r))"
proof -
  have "\<bar>round_float64 (x - r) - (x - r)\<bar> \<le> half_ulp (x - r)"
    and "\<bar>round_float64 (x + r) - (x + r)\<bar> \<le> half_ulp (x + r)"
    by (rule round_float64_error)+
  with assms show ?thesis
    unfolding float64_sub_def float64_add_def by linarith
qed

section \<open>Properties of the loading\<close>

lemma of_char_digit_char: "d < 10 \<Longrightarrow> (of_char (digit_char d) :: nat) = 48 + d"
  by (simp add: digit_char_def)

lemma is_digit_digit_char: "d < 10 \<Longrightarrow> is_digit (digit_char d)"
  by (simp add: is_digit_def of_char_digit_char)



lemma str_nat_digits: "str_nat n \<noteq> [] \<and> list_all is_digit (str_nat n)"
proof (induction n rule: str_nat.induct)
  case (1 n)
  show ?case
  proof (cases "n < 10")
    case True
    then show ?thesis by (simp add: is_digit_digit_char)
  next
    case False
    with 1 have "list_all is_digit (str_nat (n div 10))" by simp
    moreover have "is_digit (digit_char (n mod 10))" by (simp add: is_digit_digit_char)
    ultimately show ?thesis
      using False by (subst (1 2) str_nat.simps) simp
  qed
qed


lemma str_nat_short: "length (str_nat n) = 1 \<longleftrightarrow> n < 10"
proof (cases "n < 10")
  case True
  then show ?thesis by simp
next
  case False
  have "str_nat (n div 10) \<noteq> []" using str_nat_digits by blast
  then have "0 < length (str_nat (n div 10))" by simp
  then show ?thesis
    using False by (subst str_nat.simps) simp
qed





text \<open>The steps after the concatenation, on the concatenated rows.\<close>

lemma isin_AG_LAND_USES:
  "csv_row.Predominant_land_use r \<in> Some ` AG_LAND_USES \<longleftrightarrow> agricultural r"
  by (auto simp: AG_LAND_USES_def agricultural_def split: option.splits)



lemma midpoint_column_eq:
  "List.map_filter csv_row.Sample_midpoint
     (filter (\<lambda>r. csv_row.Latitude r \<noteq> None \<and> csv_row.Longitude r \<noteq> None
                     \<and> csv_row.Sample_midpoint r \<noteq> None)
        (filter (\<lambda>r. csv_row.Predominant_land_use r \<in> Some ` AG_LAND_USES) rows))
   = midpoint_column rows"
  unfolding midpoint_column_def
  by (induction rows) (auto simp: isin_AG_LAND_USES map_filter_simps)

lemma load_predicts_sites_eq:
  "load_predicts_sites float_str to_datetime paths =
     (if paths = [] then Inl ValueError
      else Inr (List.map_filter (with_site_uid float_str)
        (filter (\<lambda>rt. snd rt \<noteq> None)
           (map (\<lambda>r. (r, Option.bind (csv_row.Sample_midpoint r)
                          (to_datetime (midpoint_column (concatenated_rows paths)))))
              (filter (\<lambda>r. csv_row.Latitude r \<noteq> None \<and> csv_row.Longitude r \<noteq> None
                              \<and> csv_row.Sample_midpoint r \<noteq> None)
                 (filter (\<lambda>r. csv_row.Predominant_land_use r \<in> Some ` AG_LAND_USES)
                    (concatenated_rows paths)))))))"
  unfolding load_predicts_sites_def Let_def concatenated_rows_def midpoint_column_eq
  by simp




lemma example_load_float:
  "load_predicts_sites example_float_str example_to_datetime example_paths_float =
     Inr [example_site\<lparr>Site_number := FloatCell 1, site_uid := ''AD1_2001__Liow::1.0''\<rparr>,
          example_site\<lparr>Site_number := NaNCell, Source_ID := None,
                        Predominant_land_use := ''Pasture'',
                        source_file := ''site-level-summaries.csv'',
                        site_uid := ''nan::nan''\<rparr>]"
  by (simp add: load_predicts_sites_eq example_paths_float_def concatenated_rows_def
      read_frame_def pd_concat_def is_int_cell_def to_float_cell_def midpoint_column_def
      agricultural_def example_csv_row_def AG_LAND_USES_def csv_row.defs frame_row.defs
      example_to_datetime_def with_site_uid_def example_site_def image_iff
      astype_str_object_def astype_str_number_def example_float_str_def)

section \<open>The claims\<close>

text \<open>
  C1 as stated fails on the call of \<^verbatim>\<open>main\<close>: with a thousand acceptable patches
  at the distance of the nearest one ahead of it in the table, a patch at the same
  distance and with a smaller lag is cut off by \<^verbatim>\<open>nsmallest\<close>, and the returned
  patch has lag 5 where lag 0 was available. With \<^verbatim>\<open>max_candidates=1\<close> two patches
  are enough.
\<close>

theorem returned_patch_not_minimum_counterexample:
  "main_matches example_haversine [example_site] (replicate 1000 patch_a @ [patch_b]) = Inr [example_row_a]
   \<and> match_nearest_patches example_haversine [example_site] [patch_a, patch_b] 1 1 50 = Inr [example_row_a]
   \<and> distance_km example_row_a = Some 0
   \<and> lag_days example_row_a = Some 5
   \<and> patch_b \<in> set (replicate 1000 patch_a @ [patch_b])
   \<and> in_bounding_box example_site 1 patch_b
   \<and> patch.cloud_cover patch_b \<le> 50
   \<and> candidate_distance_km example_haversine example_site patch_b = 0
   \<and> candidate_lag_days example_site patch_b = Some 0
   \<and> \<not> lex_le (0, 5, 10) (0, 0, patch.cloud_cover patch_b)"
  using example_crowd_run example_run_cap_1 example_row_a_fields example_acceptable_ab(2)
    example_distance_ab(2) example_lag(2)
  by (simp add: acceptable_def lex_le_def)

text \<open>
  C1, amended. For a site with at least one acceptable patch in the box the code
  computes, whenever the acceptable in-box patches at the smallest value of the
  \<open>distance_km\<close> column number at most \<open>max_candidates\<close>, the patch returned for the
  site is acceptable and in the box and is a minimum, under the lexicographic order on
  (\<open>distance_km\<close> as computed in float64, lag in days, cloud cover), over all
  acceptable in-box patches; a patch whose timestamp did not parse has no lag and its
  \<open>distance_km\<close> is at least that of the returned one. This holds whatever the float64
  evaluation of the distance returns.
\<close>

theorem returned_patch_is_lexicographic_minimum:
  assumes run: "match_nearest_patches hav sites meta search_radius_deg max_candidates max_cloud_cover
                  = Inr out"
    and i: "i < length sites"
    and ex: "\<exists>p \<in> set meta. acceptable (sites ! i) search_radius_deg max_cloud_cover p"
    and cap: "int (length (nearest_acceptable hav (sites ! i) search_radius_deg max_cloud_cover meta))
                \<le> max_candidates"
  shows "\<exists>best lb. best_candidate hav search_radius_deg max_candidates max_cloud_cover meta (sites ! i)
                   = Some best
           \<and> best \<in> set meta
           \<and> acceptable (sites ! i) search_radius_deg max_cloud_cover best
           \<and> matched hav (sites ! i) best = Inr (out ! i)
           \<and> candidate_lag_days (sites ! i) best = Some lb
           \<and> (\<forall>q \<in> set meta.
                 acceptable (sites ! i) search_radius_deg max_cloud_cover q \<longrightarrow>
                 (case candidate_lag_days (sites ! i) q of
                    None \<Rightarrow> candidate_distance_km hav (sites ! i) best
                              \<le> candidate_distance_km hav (sites ! i) q
                  | Some lq \<Rightarrow>
                      lex_le (candidate_distance_km hav (sites ! i) best, lb, patch.cloud_cover best)
                             (candidate_distance_km hav (sites ! i) q, lq, patch.cloud_cover q)))"
proof -
  let ?s = "sites ! i"
  from match_nearest_patches_Inr(2)[OF run i]
  have "match_site hav search_radius_deg max_candidates max_cloud_cover meta ?s = Inr (out ! i)" .
  from match_site_Inr[OF this] ex obtain best where
    best: "best_candidate hav search_radius_deg max_candidates max_cloud_cover meta ?s = Some best"
    and m: "matched hav ?s best = Inr (out ! i)" by blast
  from matched_Inr(10)[OF m] obtain lb where lb: "candidate_lag_days ?s best = Some lb"
    by auto
  have "case candidate_lag_days ?s q of
          None \<Rightarrow> candidate_distance_km hav ?s best \<le> candidate_distance_km hav ?s q
        | Some lq \<Rightarrow>
            lex_le (candidate_distance_km hav ?s best, lb, patch.cloud_cover best)
                   (candidate_distance_km hav ?s q, lq, patch.cloud_cover q)"
    if "q \<in> set meta" "acceptable ?s search_radius_deg max_cloud_cover q" for q
    using best_candidate_least[OF best cap that] sort_values_key_le_iff[OF lb, where q = q]
    by simp
  with best m lb best_candidate_acceptable[OF best] show ?thesis by blast
qed

theorem returned_patch_is_lexicographic_minimum_witness:
  "match_nearest_patches example_haversine [example_site] [patch_a, patch_b] 1 1000 50 = Inr [example_row_b]
   \<and> (0::nat) < length [example_site]
   \<and> (\<exists>p \<in> set [patch_a, patch_b]. acceptable ([example_site] ! 0) 1 50 p)
   \<and> int (length (nearest_acceptable example_haversine ([example_site] ! 0) 1 50 [patch_a, patch_b])) \<le> 1000
   \<and> (\<exists>best lb. best_candidate example_haversine 1 1000 50 [patch_a, patch_b] ([example_site] ! 0) = Some best
           \<and> matched example_haversine ([example_site] ! 0) best = Inr ([example_row_b] ! 0)
           \<and> candidate_lag_days ([example_site] ! 0) best = Some lb
           \<and> (\<forall>q \<in> set [patch_a, patch_b].
                 acceptable ([example_site] ! 0) 1 50 q \<longrightarrow>
                 (case candidate_lag_days ([example_site] ! 0) q of
                    None \<Rightarrow> candidate_distance_km example_haversine ([example_site] ! 0) best
                              \<le> candidate_distance_km example_haversine ([example_site] ! 0) q
                  | Some lq \<Rightarrow>
                      lex_le (candidate_distance_km example_haversine ([example_site] ! 0) best, lb,
                              patch.cloud_cover best)
                             (candidate_distance_km example_haversine ([example_site] ! 0) q, lq,
                              patch.cloud_cover q))))"
proof -
  have ex: "\<exists>p \<in> set [patch_a, patch_b]. acceptable ([example_site] ! 0) 1 50 p"
    using example_acceptable_ab by simp
  have cap: "int (length (nearest_acceptable example_haversine ([example_site] ! 0) 1 50 [patch_a, patch_b]))
      \<le> 1000"
    by (simp add: example_nearest_a)
  from returned_patch_is_lexicographic_minimum[OF example_run_ab example_index ex cap]
  show ?thesis
    using example_run_ab ex cap by auto
qed

text \<open>
  C2 as stated fails on the call of \<^verbatim>\<open>main\<close>: a site at latitude 15.1 is matched to a
  patch at latitude 16.1, whose latitude is more than one degree from that of the site,
  because the upper bound the code computes, the float64 sum of 15.1 and 1.0, is 16.1.
\<close>

theorem matched_patch_beyond_radius_counterexample:
  "main_matches example_haversine [site_15_1] [patch_16_1] = Inr [row_16_1]
   \<and> best_candidate example_haversine 1 1000 50 [patch_16_1] site_15_1 = Some patch_16_1
   \<and> match_row.product_id row_16_1 = Some ''S2A_A''
   \<and> Latitude site_15_1 = 8500544296661811 / 562949953421312
   \<and> centre_lat patch_16_1 = 2265873562520781 / 140737488355328
   \<and> float64_add (Latitude site_15_1) 1 = centre_lat patch_16_1
   \<and> 1 < \<bar>centre_lat patch_16_1 - Latitude site_15_1\<bar>"
  using run_16_1 best_candidate_16_1 lat_16_1_far
  by (simp add: site_15_1_fields patch_16_1_fields float64_add_15_1 row_16_1_def
      site.defs match_row.defs)
     (simp add: lat_15_1_def lat_16_1_def)

text \<open>
  C2, amended. Every non-null match lies in the rectangular pre-filter as the code
  computes it: the latitude of the centre of the matched patch lies between the float64
  difference and the float64 sum of the latitude of the site and \<open>search_radius_deg\<close>,
  and so differs from the latitude of the site by at most \<open>search_radius_deg\<close> plus the
  rounding of these bounds, half a unit in their last place; likewise the longitude.
\<close>

theorem match_within_bounding_box:
  assumes "match_nearest_patches hav sites meta search_radius_deg max_candidates max_cloud_cover
             = Inr out"
    and "i < length sites"
    and "match_row.product_id (out ! i) \<noteq> None"
  shows "\<exists>best. best_candidate hav search_radius_deg max_candidates max_cloud_cover meta (sites ! i)
                   = Some best
           \<and> best \<in> set meta
           \<and> matched hav (sites ! i) best = Inr (out ! i)
           \<and> float64_sub (Latitude (sites ! i)) search_radius_deg \<le> centre_lat best
           \<and> centre_lat best \<le> float64_add (Latitude (sites ! i)) search_radius_deg
           \<and> float64_sub (Longitude (sites ! i)) search_radius_deg \<le> centre_lon best
           \<and> centre_lon best \<le> float64_add (Longitude (sites ! i)) search_radius_deg
           \<and> \<bar>centre_lat best - Latitude (sites ! i)\<bar>
                \<le> search_radius_deg
                    + max (half_ulp (Latitude (sites ! i) - search_radius_deg))
                          (half_ulp (Latitude (sites ! i) + search_radius_deg))
           \<and> \<bar>centre_lon best - Longitude (sites ! i)\<bar>
                \<le> search_radius_deg
                    + max (half_ulp (Longitude (sites ! i) - search_radius_deg))
                          (half_ulp (Longitude (sites ! i) + search_radius_deg))"
proof -
  from matched_output[OF assms] obtain best where
    best: "best_candidate hav search_radius_deg max_candidates max_cloud_cover meta (sites ! i)
             = Some best"
    and m: "matched hav (sites ! i) best = Inr (out ! i)" by blast
  from best_candidate_acceptable[OF best]
  have mem: "best \<in> set meta" and box: "in_bounding_box (sites ! i) search_radius_deg best"
    by (simp_all add: acceptable_def)
  from box have lat: "float64_sub (Latitude (sites ! i)) search_radius_deg \<le> centre_lat best"
      "centre_lat best \<le> float64_add (Latitude (sites ! i)) search_radius_deg"
    and lon: "float64_sub (Longitude (sites ! i)) search_radius_deg \<le> centre_lon best"
      "centre_lon best \<le> float64_add (Longitude (sites ! i)) search_radius_deg"
    by (simp_all add: in_bounding_box_def)
  from float64_bounds[OF lat] float64_bounds[OF lon] best mem m lat lon
  show ?thesis by blast
qed

theorem match_within_bounding_box_witness:
  "match_nearest_patches example_haversine [site_15_1] [patch_16_1] 1 1000 50 = Inr [row_16_1]
   \<and> (0::nat) < length [site_15_1]
   \<and> match_row.product_id ([row_16_1] ! 0) \<noteq> None
   \<and> (\<exists>best. best_candidate example_haversine 1 1000 50 [patch_16_1] ([site_15_1] ! 0)
                   = Some best
           \<and> best \<in> set [patch_16_1]
           \<and> float64_sub (Latitude ([site_15_1] ! 0)) 1 \<le> centre_lat best
           \<and> centre_lat best \<le> float64_add (Latitude ([site_15_1] ! 0)) 1
           \<and> \<bar>centre_lat best - Latitude ([site_15_1] ! 0)\<bar>
                \<le> 1 + max (half_ulp (Latitude ([site_15_1] ! 0) - 1))
                          (half_ulp (Latitude ([site_15_1] ! 0) + 1))
           \<and> \<bar>centre_lon best - Longitude ([site_15_1] ! 0)\<bar>
                \<le> 1 + max (half_ulp (Longitude ([site_15_1] ! 0) - 1))
                          (half_ulp (Longitude ([site_15_1] ! 0) + 1)))"
proof -
  have run: "match_nearest_patches example_haversine [site_15_1] [patch_16_1] 1 1000 50
      = Inr [row_16_1]"
    using run_16_1 by (simp add: main_matches_def)
  have i: "(0::nat) < length [site_15_1]" by simp
  have some: "match_row.product_id ([row_16_1] ! 0) \<noteq> None"
    by (simp add: row_16_1_def site.defs match_row.defs)
  from match_within_bounding_box[OF run i some] show ?thesis
    using run some by auto
qed

text \<open>
  C3. Every non-null match has a cloud cover at most \<open>max_cloud_cover\<close>: the recorded
  cloud cover is that of the selected patch, which is under the threshold (50 in the
  call of \<^verbatim>\<open>main\<close>).
\<close>

theorem match_cloud_cover_le_threshold:
  assumes "match_nearest_patches hav sites meta search_radius_deg max_candidates max_cloud_cover = Inr out"
    and "i < length sites"
    and "match_row.product_id (out ! i) \<noteq> None"
  shows "\<exists>best. best_candidate hav search_radius_deg max_candidates max_cloud_cover meta (sites ! i)
                   = Some best
           \<and> matched hav (sites ! i) best = Inr (out ! i)
           \<and> match_row.cloud_cover (out ! i) = Some (patch.cloud_cover best)
           \<and> patch.cloud_cover best \<le> max_cloud_cover"
proof -
  from matched_output[OF assms] obtain best where
    best: "best_candidate hav search_radius_deg max_candidates max_cloud_cover meta (sites ! i)
             = Some best"
    and m: "matched hav (sites ! i) best = Inr (out ! i)" by blast
  from best_candidate_acceptable(2)[OF best]
  have "patch.cloud_cover best \<le> max_cloud_cover" by (simp add: acceptable_def)
  with best m matched_Inr(5)[OF m] show ?thesis by blast
qed

theorem match_cloud_cover_le_threshold_witness:
  "main_matches example_haversine [example_site] [patch_a] = Inr [example_row_a]
   \<and> (0::nat) < length [example_site]
   \<and> match_row.product_id ([example_row_a] ! 0) \<noteq> None
   \<and> (\<exists>best. best_candidate example_haversine 1 1000 50 [patch_a] ([example_site] ! 0) = Some best
           \<and> matched example_haversine ([example_site] ! 0) best = Inr ([example_row_a] ! 0)
           \<and> match_row.cloud_cover ([example_row_a] ! 0) = Some (patch.cloud_cover best)
           \<and> patch.cloud_cover best \<le> 50)"
  using match_cloud_cover_le_threshold[OF example_run example_index example_row_a_fields(1)]
    example_run example_row_a_fields(1)
  by (simp add: main_matches_def)

text \<open>
  C4. For all coordinates, \<open>haversine_distance\<close> is the haversine great-circle distance
  \<open>2 * R * arcsin (sqrt (sin\<^sup>2 (dlat/2) + cos lat1 * cos lat2 * sin\<^sup>2 (dlon/2)))\<close> with
  \<open>R = 6371\<close>, the latitudes and the coordinate differences being converted from degrees
  to radians first, over the real numbers.
\<close>

theorem haversine_distance_is_great_circle:
  "haversine_distance lat1 lon1 lat2 lon2 = great_circle_spec lat1 lon1 lat2 lon2"
  by (simp add: haversine_distance_def great_circle_spec_def haversine_term_def
      radians_def Let_def)

text \<open>
  C5. Every sites table should give one output row per site. The code does not: for a
  site whose only acceptable in-box patch has a timestamp that did not parse, which line
  61 turns into NaT rather than rejecting, \<^verbatim>\<open>int(best["lag_days"])\<close> at line 139 raises
  a ValueError and the run returns no row.
\<close>

theorem unparsed_timestamp_raises_value_error:
  "main_matches example_haversine [example_site] [patch_nat] = Inl ValueError
   \<and> timestamp_dt patch_nat = None
   \<and> in_bounding_box example_site 1 patch_nat
   \<and> patch.cloud_cover patch_nat \<le> 50"
  using example_run_nat example_acceptable[of "''S2A_C''" "''2020-01-01''" None]
  by (simp add: acceptable_def patch_nat_def[symmetric])
     (simp add: patch_nat_def example_patch_def)

text \<open>
  C6. For each non-null match, the recorded \<open>lag_days\<close> is the number of whole days
  in the absolute difference between the acquisition timestamp of the matched patch
  (recorded as \<open>eo_timestamp\<close>) and the \<open>Sample_midpoint\<close> of the site, and is not
  negative.
\<close>

theorem lag_days_whole_days_of_abs_difference:
  assumes "match_nearest_patches hav sites meta search_radius_deg max_candidates max_cloud_cover = Inr out"
    and "i < length sites"
    and "match_row.product_id (out ! i) \<noteq> None"
  shows "\<exists>best t. best_candidate hav search_radius_deg max_candidates max_cloud_cover meta (sites ! i)
                   = Some best
           \<and> matched hav (sites ! i) best = Inr (out ! i)
           \<and> timestamp_dt best = Some t
           \<and> eo_timestamp (out ! i) = Some t
           \<and> lag_days (out ! i) = Some (\<bar>t - Sample_midpoint (sites ! i)\<bar> div ns_per_day)
           \<and> 0 \<le> \<bar>t - Sample_midpoint (sites ! i)\<bar> div ns_per_day"
proof -
  from matched_output[OF assms] obtain best where
    best: "best_candidate hav search_radius_deg max_candidates max_cloud_cover meta (sites ! i)
             = Some best"
    and m: "matched hav (sites ! i) best = Inr (out ! i)" by blast
  from matched_Inr(10)[OF m] obtain l where l: "candidate_lag_days (sites ! i) best = Some l"
    by auto
  then obtain t where t: "timestamp_dt best = Some t"
    and l_eq: "l = \<bar>t - Sample_midpoint (sites ! i)\<bar> div ns_per_day"
    by (auto simp: candidate_lag_days_Some)
  have "0 \<le> \<bar>t - Sample_midpoint (sites ! i)\<bar> div ns_per_day"
    by (simp add: ns_per_day_def pos_imp_zdiv_nonneg_iff)
  with best m t l l_eq matched_Inr(3,4)[OF m] show ?thesis by auto
qed

theorem lag_days_whole_days_of_abs_difference_witness:
  "match_nearest_patches example_haversine [example_site] [patch_a] 1 1000 50 = Inr [example_row_a]
   \<and> (0::nat) < length [example_site]
   \<and> match_row.product_id ([example_row_a] ! 0) \<noteq> None
   \<and> (\<exists>best t. best_candidate example_haversine 1 1000 50 [patch_a] ([example_site] ! 0) = Some best
           \<and> timestamp_dt best = Some t
           \<and> eo_timestamp ([example_row_a] ! 0) = Some t
           \<and> lag_days ([example_row_a] ! 0)
                = Some (\<bar>t - Sample_midpoint ([example_site] ! 0)\<bar> div ns_per_day)
           \<and> 0 \<le> \<bar>t - Sample_midpoint ([example_site] ! 0)\<bar> div ns_per_day)"
  using lag_days_whole_days_of_abs_difference[OF example_run example_index example_row_a_fields(1)]
    example_run example_row_a_fields(1)
  by auto

text \<open>
  C8 as stated fails on the call of \<^verbatim>\<open>main\<close>: for the site at latitude 15.1 and the
  single patch at latitude 16.1, whose timestamp parses, the eight match fields are all
  set although the patch is more than one degree north of the site, so that no patch is
  within one degree of it.
\<close>

theorem full_match_outside_exact_box_counterexample:
  "main_matches example_haversine [site_15_1] [patch_16_1] = Inr [row_16_1]
   \<and> timestamp_dt patch_16_1 \<noteq> None
   \<and> match_fields_all_some row_16_1
   \<and> \<not> match_fields_all_none row_16_1
   \<and> patch.cloud_cover patch_16_1 \<le> 50
   \<and> Latitude site_15_1 + 1 < centre_lat patch_16_1"
  using run_16_1 lat_16_1_far
  by (simp add: site_15_1_fields patch_16_1_fields match_fields_all_some_def
      match_fields_all_none_def row_16_1_def site.defs match_row.defs)

text \<open>
  C8, amended. When every metadata timestamp parses, the eight match fields of the row of
  a site are all \<^verbatim>\<open>None\<close> exactly when no metadata patch is both in the bounding box
  of the site as lines 76 to 81 compute it, with float64 bounds, and at or under the
  cloud threshold, and are all set otherwise; the run returns its rows when
  \<open>max_candidates\<close> is at least 1.
\<close>

theorem match_fields_none_iff_no_acceptable_patch:
  assumes "\<forall>p \<in> set meta. timestamp_dt p \<noteq> None"
  shows "(1 \<le> max_candidates \<longrightarrow>
           (\<exists>out. match_nearest_patches hav sites meta search_radius_deg max_candidates max_cloud_cover
                     = Inr out))
         \<and> (\<forall>out i. match_nearest_patches hav sites meta search_radius_deg max_candidates
                        max_cloud_cover = Inr out \<and> i < length sites \<longrightarrow>
               (match_fields_all_none (out ! i) \<longleftrightarrow>
                  \<not> (\<exists>p \<in> set meta.
                        in_bounding_box (sites ! i) search_radius_deg p
                        \<and> patch.cloud_cover p \<le> max_cloud_cover))
               \<and> (\<not> match_fields_all_none (out ! i) \<longrightarrow> match_fields_all_some (out ! i)))"
proof (intro conjI allI impI)
  assume "1 \<le> max_candidates"
  with assms show "\<exists>out. match_nearest_patches hav sites meta search_radius_deg max_candidates
      max_cloud_cover = Inr out"
    by (rule match_nearest_patches_total)
next
  fix out i
  assume "match_nearest_patches hav sites meta search_radius_deg max_candidates max_cloud_cover
      = Inr out \<and> i < length sites"
  then have "match_site hav search_radius_deg max_candidates max_cloud_cover meta (sites ! i)
      = Inr (out ! i)"
    using match_nearest_patches_Inr(2) by blast
  from match_site_Inr[OF this]
  have alts: "(\<not> (\<exists>p \<in> set meta. acceptable (sites ! i) search_radius_deg max_cloud_cover p)
        \<and> match_fields_all_none (out ! i))
      \<or> ((\<exists>p \<in> set meta. acceptable (sites ! i) search_radius_deg max_cloud_cover p)
        \<and> match_fields_all_some (out ! i))"
    using no_match_fields(2) matched_all_some best_candidate_acceptable by metis
  have excl: "\<not> (match_fields_all_none m \<and> match_fields_all_some m)" for m
    by (auto simp: match_fields_all_none_def match_fields_all_some_def)
  show "match_fields_all_none (out ! i) \<longleftrightarrow>
      \<not> (\<exists>p \<in> set meta. in_bounding_box (sites ! i) search_radius_deg p
            \<and> patch.cloud_cover p \<le> max_cloud_cover)"
    using alts excl unfolding acceptable_def by blast
  show "match_fields_all_some (out ! i)" if "\<not> match_fields_all_none (out ! i)"
    using alts that by blast
qed

theorem match_fields_none_iff_no_acceptable_patch_witness:
  "timestamp_dt patch_a \<noteq> None \<and> timestamp_dt patch_b \<noteq> None
   \<and> match_nearest_patches example_haversine [example_site] [patch_a, patch_b] 1 1000 50 = Inr [example_row_b]
   \<and> (0::nat) < length [example_site]
   \<and> \<not> match_fields_all_none ([example_row_b] ! 0)
   \<and> (\<exists>p \<in> set [patch_a, patch_b].
          in_bounding_box ([example_site] ! 0) 1 p \<and> patch.cloud_cover p \<le> 50)
   \<and> match_fields_all_some ([example_row_b] ! 0)"
proof -
  note inst = match_fields_none_iff_no_acceptable_patch[OF example_parses,
      where hav = example_haversine and max_candidates = 1000 and sites = "[example_site]"
        and search_radius_deg = 1 and max_cloud_cover = 50]
  from inst have "match_fields_all_none ([example_row_b] ! 0) \<longleftrightarrow>
      \<not> (\<exists>p \<in> set [patch_a, patch_b].
            in_bounding_box ([example_site] ! 0) 1 p \<and> patch.cloud_cover p \<le> 50)"
    using example_run_ab example_index by blast
  moreover have "\<not> match_fields_all_none ([example_row_b] ! 0)"
    by (simp add: match_fields_all_none_def example_row_b_def site.defs match_row.defs)
  moreover from inst have "\<not> match_fields_all_none ([example_row_b] ! 0) \<longrightarrow>
      match_fields_all_some ([example_row_b] ! 0)"
    using example_run_ab example_index by blast
  ultimately show ?thesis
    using example_parses example_run_ab by simp
qed



text \<open>
  C10. Over the real numbers, \<open>haversine_distance\<close> is symmetric in its two points, is
  never negative, and is zero when the two points coincide.
\<close>

theorem haversine_distance_symmetric_nonneg_zero:
  "haversine_distance lat1 lon1 lat2 lon2 = haversine_distance lat2 lon2 lat1 lon1
   \<and> 0 \<le> haversine_distance lat1 lon1 lat2 lon2
   \<and> haversine_distance lat1 lon1 lat1 lon1 = 0"
proof (intro conjI)
  show "haversine_distance lat1 lon1 lat2 lon2 = haversine_distance lat2 lon2 lat1 lon1"
    unfolding haversine_distance_unfold
    by (simp only: haversine_term_sym[of lat1 lon1 lat2 lon2])
  show "0 \<le> haversine_distance lat1 lon1 lat2 lon2"
    by (rule haversine_distance_nonneg)
  show "haversine_distance lat1 lon1 lat1 lon1 = 0"
    by (simp add: haversine_distance_unfold haversine_term_def)
qed

end
